theory Spec2Isabelle
  imports Main
begin

section \<open>The upload proxy of server.py: data model\<close>

text \<open>
  The module is a small HTTP service in front of a remote storage account. Its state is
  the local file system (the staged uploads under \<open>/tmp\<close> and one status file per job
  under \<open>STATUS_DIR\<close>), the queue of background tasks, and the remote account, which
  is reached through the client object \<open>seedr\<close>.

  JSON documents are the values that \<open>json.dump\<close> writes and \<open>json.load\<close> reads back:
  \<open>None\<close>, booleans, integers, strings, lists, and dicts with string keys in insertion
  order. Floating point numbers are left out.
\<close>

type_synonym path = string

datatype json =
    JNull
  | JBool bool
  | JNum int
  | JStr string
  | JArr "json list"
  | JObj "(string \<times> json) list"

text \<open>
  What a file holds is kept at the level of \<open>json.load\<close>: either the text of a
  document, or bytes that \<open>json.load\<close> rejects (an empty or truncated file, an upload
  that is no JSON text). So \<open>json.load\<close> after \<open>json.dump\<close> is the identity on
  documents, which is what Python's library does on the values of type \<open>json\<close>.
\<close>

datatype file_data = Holds json | Garbled

text \<open>
  Every exception of the model is an instance of Python's \<open>Exception\<close>, so the
  clause \<open>except Exception\<close> catches all of them. \<open>Raised s\<close> is any such exception
  whose \<open>str()\<close> is \<open>s\<close>.
\<close>

datatype exn = JSONDecodeError | Raised string

fun exn_text :: "exn \<Rightarrow> string" where
  "exn_text JSONDecodeError = ''Expecting value: line 1 column 1 (char 0)''"
| "exn_text (Raised s) = s"

text \<open>
  The fallible primitives of the local machine. The world carries, for each of them, the
  outcomes the environment holds in store for its coming calls: \<open>None\<close> lets the call
  through, \<open>Some e\<close> makes it raise \<open>e\<close>; past the end of the list every call goes
  through.
\<close>

datatype prim = Open | Dump | Copy | Remove

text \<open>
  The log of what happened, in program order. It is an observer's record (the source
  keeps no such list, apart from \<open>logger.error\<close>): \<open>StatusWrite k d ok\<close> is a call
  \<open>write_status(k, d)\<close>, with \<open>ok\<close> telling whether it returned normally.
\<close>

datatype event =
    Generated string
  | Staged path
  | Enqueued string path
  | StatusWrite string json bool
  | RemoteUpload path
  | RemoteDeleteFile string
  | RemoteDeleteFolder string
  | LogError string
  | Removed path

record world =
  files :: "path \<rightharpoonup> file_data"
  faults :: "prim \<Rightarrow> exn option list"
  uuids :: "nat \<Rightarrow> string"
  issued :: nat
  tasks :: "(string \<times> path) list"
  trace :: "event list"

text \<open>The remote provider, as the module sees it: each call returns a payload or raises.\<close>

record seedr_client =
  upload_file_reply :: "path \<Rightarrow> exn + json"
  delete_file_reply :: "string \<Rightarrow> exn + json"
  delete_folder_reply :: "string \<Rightarrow> exn + json"

record response =
  status_code :: nat
  content :: json

section \<open>Primitives of the standard library\<close>

definition log :: "event \<Rightarrow> world \<Rightarrow> world" where
  "log ev w = w\<lparr>trace := trace w @ [ev]\<rparr>"

definition next_fault :: "prim \<Rightarrow> world \<Rightarrow> exn option" where
  "next_fault p w = (case faults w p of [] \<Rightarrow> None | x # _ \<Rightarrow> x)"

definition attempt :: "prim \<Rightarrow> world \<Rightarrow> exn option \<times> world" where
  "attempt p w =
     (case faults w p of
        [] \<Rightarrow> (None, w)
      | x # xs \<Rightarrow> (x, w\<lparr>faults := (faults w)(p := xs)\<rparr>))"

text \<open>\<open>posixpath.join\<close> on two components.\<close>

definition os_path_join :: "path \<Rightarrow> path \<Rightarrow> path" where
  "os_path_join a b =
     (if b \<noteq> [] \<and> hd b = CHR ''/'' then b
      else if a = [] \<or> last a = CHR ''/'' then a @ b
      else a @ ''/'' @ b)"

definition os_path_exists :: "path \<Rightarrow> world \<Rightarrow> bool" where
  "os_path_exists p w = (files w p \<noteq> None)"

text \<open>\<open>open(p, "w")\<close>: raises, or leaves an empty file at \<open>p\<close>.\<close>

definition open_w :: "path \<Rightarrow> world \<Rightarrow> (exn + unit) \<times> world" where
  "open_w p w =
     (case attempt Open w of
        (Some e, w') \<Rightarrow> (Inl e, w')
      | (None, w') \<Rightarrow> (Inr (), w'\<lparr>files := (files w')(p \<mapsto> Garbled)\<rparr>))"

text \<open>\<open>json.dump(d, f)\<close> on the file opened at \<open>p\<close>: a failure leaves the partial text.\<close>

definition json_dump :: "json \<Rightarrow> path \<Rightarrow> world \<Rightarrow> (exn + unit) \<times> world" where
  "json_dump d p w =
     (case attempt Dump w of
        (Some e, w') \<Rightarrow> (Inl e, w')
      | (None, w') \<Rightarrow> (Inr (), w'\<lparr>files := (files w')(p \<mapsto> Holds d)\<rparr>))"

text \<open>\<open>shutil.copyfileobj(src, f)\<close> on the file opened at \<open>p\<close>.\<close>

definition copyfileobj :: "file_data \<Rightarrow> path \<Rightarrow> world \<Rightarrow> (exn + unit) \<times> world" where
  "copyfileobj src p w =
     (case attempt Copy w of
        (Some e, w') \<Rightarrow> (Inl e, w')
      | (None, w') \<Rightarrow> (Inr (), log (Staged p) (w'\<lparr>files := (files w')(p \<mapsto> src)\<rparr>)))"

definition os_remove :: "path \<Rightarrow> world \<Rightarrow> (exn + unit) \<times> world" where
  "os_remove p w =
     (case attempt Remove w of
        (Some e, w') \<Rightarrow> (Inl e, w')
      | (None, w') \<Rightarrow> (Inr (), log (Removed p) (w'\<lparr>files := (files w')(p := None)\<rparr>)))"

definition uuid4 :: "world \<Rightarrow> string \<times> world" where
  "uuid4 w =
     (let u = uuids w (issued w)
      in (u, log (Generated u) (w\<lparr>issued := Suc (issued w)\<rparr>)))"

definition add_task :: "string \<Rightarrow> path \<Rightarrow> world \<Rightarrow> world" where
  "add_task file_id tmp_path w =
     log (Enqueued file_id tmp_path) (w\<lparr>tasks := tasks w @ [(file_id, tmp_path)]\<rparr>)"

text \<open>Truth value testing of Python, on what \<open>json.load\<close> returns.\<close>

fun truthy :: "json \<Rightarrow> bool" where
  "truthy JNull = False"
| "truthy (JBool b) = b"
| "truthy (JNum n) = (n \<noteq> 0)"
| "truthy (JStr s) = (s \<noteq> [])"
| "truthy (JArr xs) = (xs \<noteq> [])"
| "truthy (JObj kvs) = (kvs \<noteq> [])"

section \<open>The remote client\<close>

definition seedr_upload_file :: "seedr_client \<Rightarrow> path \<Rightarrow> world \<Rightarrow> (exn + json) \<times> world" where
  "seedr_upload_file c p w = (upload_file_reply c p, log (RemoteUpload p) w)"

definition seedr_delete_file :: "seedr_client \<Rightarrow> string \<Rightarrow> world \<Rightarrow> (exn + json) \<times> world" where
  "seedr_delete_file c i w = (delete_file_reply c i, log (RemoteDeleteFile i) w)"

definition seedr_delete_folder :: "seedr_client \<Rightarrow> string \<Rightarrow> world \<Rightarrow> (exn + json) \<times> world" where
  "seedr_delete_folder c i w = (delete_folder_reply c i, log (RemoteDeleteFolder i) w)"

section \<open>The status store\<close>

definition STATUS_DIR :: path where
  "STATUS_DIR = ''/tmp/upload_statuses''"

definition status_path :: "string \<Rightarrow> path" where
  "status_path file_id = os_path_join STATUS_DIR (file_id @ ''.json'')"

text \<open>
  \<open>write_status\<close>: the \<open>with\<close> block opens the file for writing, which empties it, and
  dumps the document into it. An exception of either step leaves the function.
\<close>

definition write_status :: "string \<Rightarrow> json \<Rightarrow> world \<Rightarrow> (exn + unit) \<times> world" where
  "write_status file_id status_data w =
     (case open_w (status_path file_id) w of
        (Inl e, w1) \<Rightarrow> (Inl e, log (StatusWrite file_id status_data False) w1)
      | (Inr _, w1) \<Rightarrow>
          (case json_dump status_data (status_path file_id) w1 of
             (Inl e, w2) \<Rightarrow> (Inl e, log (StatusWrite file_id status_data False) w2)
           | (Inr _, w2) \<Rightarrow> (Inr (), log (StatusWrite file_id status_data True) w2)))"

text \<open>
  \<open>read_status\<close>: \<open>None\<close> when no file is at the path, else whatever \<open>json.load\<close>
  makes of the file.
\<close>

definition read_status :: "string \<Rightarrow> world \<Rightarrow> exn + json option" where
  "read_status file_id w =
     (if \<not> os_path_exists (status_path file_id) w then Inr None
      else (case files w (status_path file_id) of
              Some (Holds d) \<Rightarrow> Inr (Some d)
            | _ \<Rightarrow> Inl JSONDecodeError))"

section \<open>The background upload worker\<close>

definition processing_record :: json where
  "processing_record = JObj [(''status'', JStr ''processing'')]"

definition completed_record :: "json \<Rightarrow> json" where
  "completed_record result = JObj [(''status'', JStr ''completed''), (''result'', result)]"

definition failed_record :: json where
  "failed_record = JObj [(''status'', JStr ''failed''), (''error'', JStr ''Upload process failed.'')]"

definition pending_record :: json where
  "pending_record = JObj [(''status'', JStr ''pending'')]"

text \<open>The body of the \<open>try\<close>: three calls, the first exception ends it.\<close>

definition try_body :: "seedr_client \<Rightarrow> string \<Rightarrow> path \<Rightarrow> world \<Rightarrow> (exn + unit) \<times> world" where
  "try_body c file_id tmp_path w =
     (case write_status file_id processing_record w of
        (Inl e, w1) \<Rightarrow> (Inl e, w1)
      | (Inr _, w1) \<Rightarrow>
          (case seedr_upload_file c tmp_path w1 of
             (Inl e, w2) \<Rightarrow> (Inl e, w2)
           | (Inr result, w2) \<Rightarrow> write_status file_id (completed_record result) w2))"

text \<open>The \<open>except Exception as e\<close> clause.\<close>

definition except_clause :: "string \<Rightarrow> exn \<Rightarrow> world \<Rightarrow> (exn + unit) \<times> world" where
  "except_clause file_id e w =
     write_status file_id failed_record
       (log (LogError (''Upload failed for file_id '' @ file_id @ '': '' @ exn_text e)) w)"

text \<open>The \<open>finally\<close> clause.\<close>

definition finally_clause :: "path \<Rightarrow> world \<Rightarrow> (exn + unit) \<times> world" where
  "finally_clause tmp_path w =
     (if os_path_exists tmp_path w then os_remove tmp_path w else (Inr (), w))"

text \<open>The \<open>try\<close> with its handler: the handler runs when the body raised.\<close>

definition try_except :: "seedr_client \<Rightarrow> string \<Rightarrow> path \<Rightarrow> world \<Rightarrow> (exn + unit) \<times> world" where
  "try_except c file_id tmp_path w =
     (case try_body c file_id tmp_path w of
        (Inr u, w1) \<Rightarrow> (Inr u, w1)
      | (Inl e, w1) \<Rightarrow> except_clause file_id e w1)"

text \<open>
  The whole statement: the \<open>finally\<close> clause runs on every path, and an exception of
  its own replaces the one that was on its way out.
\<close>

definition upload_to_seedr_in_background ::
    "seedr_client \<Rightarrow> string \<Rightarrow> path \<Rightarrow> world \<Rightarrow> (exn + unit) \<times> world" where
  "upload_to_seedr_in_background c file_id tmp_path w =
     (case try_except c file_id tmp_path w of
        (r, w1) \<Rightarrow>
          (case finally_clause tmp_path w1 of
             (Inl e, w2) \<Rightarrow> (Inl e, w2)
           | (Inr _, w2) \<Rightarrow> (r, w2)))"

section \<open>The endpoints\<close>

text \<open>\<open>generic_exception_handler\<close>: what the client gets when an endpoint raised.\<close>

definition generic_exception_handler :: "exn + response \<Rightarrow> response" where
  "generic_exception_handler r =
     (case r of
        Inl e \<Rightarrow> \<lparr>status_code = 500,
                  content = JObj [(''message'', JStr ''An internal server error occurred.'')]\<rparr>
      | Inr resp \<Rightarrow> resp)"

definition tmp_path_of :: "string \<Rightarrow> string \<Rightarrow> path" where
  "tmp_path_of file_id filename = ''/tmp/'' @ file_id @ ''-'' @ filename"

text \<open>Lines 91 and 92 of \<open>upload_file\<close>: the \<open>with\<close> block that stages the upload.\<close>

definition stage :: "path \<Rightarrow> file_data \<Rightarrow> world \<Rightarrow> (exn + unit) \<times> world" where
  "stage tmp_path src w =
     (case open_w tmp_path w of
        (Inl e, w1) \<Rightarrow> (Inl e, w1)
      | (Inr _, w1) \<Rightarrow> copyfileobj src tmp_path w1)"

definition upload_file :: "string \<Rightarrow> file_data \<Rightarrow> world \<Rightarrow> (exn + response) \<times> world" where
  "upload_file filename src w =
     (let (file_id, w1) = uuid4 w;
          tmp_path = tmp_path_of file_id filename
      in (case stage tmp_path src w1 of
            (Inl e, w2) \<Rightarrow> (Inl e, w2)
          | (Inr _, w2) \<Rightarrow>
              (let w3 = add_task file_id tmp_path w2
               in (case write_status file_id pending_record w3 of
                     (Inl e, w4) \<Rightarrow> (Inl e, w4)
                   | (Inr _, w4) \<Rightarrow>
                       (Inr \<lparr>status_code = 202,
                             content = JObj [(''file_id'', JStr file_id)]\<rparr>, w4)))))"

definition not_found :: response where
  "not_found = \<lparr>status_code = 404, content = JObj [(''error'', JStr ''File not found'')]\<rparr>"

text \<open>
  \<open>get_upload_status\<close>: the test \<open>not status\<close> holds for \<open>None\<close> and for every
  document that Python takes as false.
\<close>

definition get_upload_status :: "string \<Rightarrow> world \<Rightarrow> exn + response" where
  "get_upload_status file_id w =
     (case read_status file_id w of
        Inl e \<Rightarrow> Inl e
      | Inr None \<Rightarrow> Inr not_found
      | Inr (Some status) \<Rightarrow>
          (if \<not> truthy status then Inr not_found
           else Inr \<lparr>status_code = 200, content = status\<rparr>))"

definition invalid_item_type :: json where
  "invalid_item_type =
     JObj [(''error'', JStr (''Invalid item_type. Must be '' @ [CHR 0x27] @ ''file'' @ [CHR 0x27]
                              @ '' or '' @ [CHR 0x27] @ ''folder'' @ [CHR 0x27] @ ''.''))]"

text \<open>\<open>delete_item\<close>: the query parameter is optional, \<open>"file"\<close> when it is left out.\<close>

definition delete_item ::
    "seedr_client \<Rightarrow> string \<Rightarrow> string option \<Rightarrow> world \<Rightarrow> (exn + response) \<times> world" where
  "delete_item c item_id item_type_param w =
     (let item_type = (case item_type_param of None \<Rightarrow> ''file'' | Some t \<Rightarrow> t)
      in if item_type = ''file'' then
           (case seedr_delete_file c item_id w of
              (Inl e, w1) \<Rightarrow> (Inl e, w1)
            | (Inr result, w1) \<Rightarrow> (Inr \<lparr>status_code = 200, content = result\<rparr>, w1))
         else if item_type = ''folder'' then
           (case seedr_delete_folder c item_id w of
              (Inl e, w1) \<Rightarrow> (Inl e, w1)
            | (Inr result, w1) \<Rightarrow> (Inr \<lparr>status_code = 200, content = result\<rparr>, w1))
         else (Inr \<lparr>status_code = 400, content = invalid_item_type\<rparr>, w))"

section \<open>Vocabulary of the properties\<close>

text \<open>What a call added to the log: the events of the world after it, past those before it.\<close>

definition emitted :: "world \<Rightarrow> world \<Rightarrow> event list" where
  "emitted w w' = drop (length (trace w)) (trace w')"

text \<open>The calls of \<open>write_status\<close> in a log: key, document, and whether the call returned.\<close>

fun status_writes :: "event list \<Rightarrow> (string \<times> json \<times> bool) list" where
  "status_writes [] = []"
| "status_writes (StatusWrite k d ok # evs) = (k, d, ok) # status_writes evs"
| "status_writes (_ # evs) = status_writes evs"

definition write_calls :: "event list \<Rightarrow> (string \<times> json) list" where
  "write_calls evs = map (\<lambda>(k, d, ok). (k, d)) (status_writes evs)"

definition writes_done :: "event list \<Rightarrow> (string \<times> json) list" where
  "writes_done evs = map (\<lambda>(k, d, ok). (k, d)) (filter (\<lambda>(k, d, ok). ok) (status_writes evs))"

definition has_field :: "json \<Rightarrow> string \<Rightarrow> bool" where
  "has_field d f = (case d of JObj kvs \<Rightarrow> map_of kvs f \<noteq> None | _ \<Rightarrow> False)"

definition status_of :: "json \<Rightarrow> string option" where
  "status_of d =
     (case d of
        JObj kvs \<Rightarrow> (case map_of kvs ''status'' of Some (JStr s) \<Rightarrow> Some s | _ \<Rightarrow> None)
      | _ \<Rightarrow> None)"

definition terminal :: "json \<Rightarrow> bool" where
  "terminal d = (status_of d = Some ''completed'' \<or> status_of d = Some ''failed'')"

text \<open>
  The sequence of writes under one key that the state machine allows a worker: a
  \<open>processing\<close> record, then one record with a terminal status, and nothing else.
\<close>

definition lifecycle :: "string \<Rightarrow> (string \<times> json) list \<Rightarrow> bool" where
  "lifecycle k ws =
     (case ws of
        [(k1, d1), (k2, d2)] \<Rightarrow>
          k1 = k \<and> k2 = k \<and> status_of d1 = Some ''processing'' \<and> terminal d2
      | _ \<Rightarrow> False)"

text \<open>The shape of a job record: \<open>result\<close> with \<open>completed\<close> only, \<open>error\<close> with \<open>failed\<close> only.\<close>

definition record_ok :: "json \<Rightarrow> bool" where
  "record_ok d =
     ((has_field d ''result'' \<longleftrightarrow> status_of d = Some ''completed'') \<and>
      (has_field d ''error'' \<longleftrightarrow> status_of d = Some ''failed''))"

text \<open>
  The shapes the calls of \<open>write_status\<close> of one run of the worker can take: the flag of
  each call tells whether it returned.
\<close>

definition worker_shape ::
    "seedr_client \<Rightarrow> string \<Rightarrow> path \<Rightarrow> (string \<times> json \<times> bool) list \<Rightarrow> bool" where
  "worker_shape c k tmp sw =
     ((\<exists>ok. sw = [(k, processing_record, False), (k, failed_record, ok)]) \<or>
      (\<exists>e ok. upload_file_reply c tmp = Inl e \<and>
          sw = [(k, processing_record, True), (k, failed_record, ok)]) \<or>
      (\<exists>r. upload_file_reply c tmp = Inr r \<and>
          sw = [(k, processing_record, True), (k, completed_record r, True)]) \<or>
      (\<exists>r ok. upload_file_reply c tmp = Inr r \<and>
          sw = [(k, processing_record, True), (k, completed_record r, False),
                (k, failed_record, ok)]))"

section \<open>Sample inputs\<close>

text \<open>
  An empty disk on which nothing fails, with a source of ids that never repeats, and a
  provider that accepts everything.
\<close>

definition quiet_world :: world where
  "quiet_world =
     \<lparr>files = Map.empty, faults = (\<lambda>p. []), uuids = (\<lambda>n. ''job-1'' @ replicate n (CHR ''+'')), issued = 0,
      tasks = [], trace = []\<rparr>"

definition obliging_client :: seedr_client where
  "obliging_client =
     \<lparr>upload_file_reply = (\<lambda>p. Inr (JObj [(''success'', JBool True)])),
      delete_file_reply = (\<lambda>i. Inr (JObj [(''deleted'', JStr i)])),
      delete_folder_reply = (\<lambda>i. Inr (JObj [(''deleted'', JStr i)]))\<rparr>"

definition refusing_client :: seedr_client where
  "refusing_client =
     \<lparr>upload_file_reply = (\<lambda>p. Inl (Raised ''401 token expired'')),
      delete_file_reply = (\<lambda>i. Inl (Raised ''401 token expired'')),
      delete_folder_reply = (\<lambda>i. Inl (Raised ''401 token expired''))\<rparr>"

definition staged_world :: world where
  "staged_world = quiet_world\<lparr>files := [''/tmp/job-1-a.bin'' \<mapsto> Garbled]\<rparr>"

text \<open>
  The staged upload is on disk; the first \<open>open\<close> for writing goes through and the two
  after it raise.
\<close>

definition full_disk_world :: world where
  "full_disk_world =
     staged_world\<lparr>faults := (\<lambda>p. [])(Open := [None, Some (Raised ''No space left on device''),
                                               Some (Raised ''No space left on device'')])\<rparr>"

text \<open>The staged upload is on disk and cannot be removed.\<close>

definition stuck_file_world :: world where
  "stuck_file_world =
     staged_world\<lparr>faults := (\<lambda>p. [])(Remove := [Some (Raised ''Permission denied'')])\<rparr>"

text \<open>The copy of the upload raises.\<close>

definition no_space_world :: world where
  "no_space_world =
     quiet_world\<lparr>faults := (\<lambda>p. [])(Copy := [Some (Raised ''No space left on device'')])\<rparr>"

text \<open>A status directory that holds the empty document under one key and a record under another.\<close>

definition odd_store_world :: world where
  "odd_store_world =
     quiet_world\<lparr>files := [status_path ''job-1'' \<mapsto> Holds (JObj []),
                             status_path ''job-2'' \<mapsto> Holds (JObj [(''status'', JStr ''pending'')])]\<rparr>"

section \<open>Facts about the primitives and the status store\<close>

lemmas write_status_unfold = write_status_def open_w_def json_dump_def attempt_def log_def

lemmas removal_unfold = finally_clause_def os_path_exists_def os_remove_def attempt_def log_def
  next_fault_def

lemmas run_defs = upload_to_seedr_in_background_def try_except_def try_body_def except_clause_def
  finally_clause_def upload_file_def stage_def write_status_def read_status_def
  get_upload_status_def delete_item_def seedr_upload_file_def seedr_delete_file_def
  seedr_delete_folder_def open_w_def json_dump_def copyfileobj_def os_remove_def uuid4_def
  add_task_def attempt_def next_fault_def os_path_exists_def log_def emitted_def
  status_path_def os_path_join_def STATUS_DIR_def tmp_path_of_def
  processing_record_def completed_record_def failed_record_def pending_record_def Let_def

lemmas sample_defs = quiet_world_def staged_world_def full_disk_world_def no_space_world_def
  stuck_file_world_def
  odd_store_world_def obliging_client_def refusing_client_def

lemma status_writes_append: "status_writes (xs @ ys) = status_writes xs @ status_writes ys"
  by (induction xs rule: status_writes.induct) simp_all

lemma trace_write_status:
  "trace (snd (write_status k d w)) =
     trace w @ [StatusWrite k d (fst (write_status k d w) = Inr ())]"
  by (auto simp: write_status_unfold split: prod.splits sum.splits option.splits list.splits)

lemma faults_write_status:
  "p \<noteq> Open \<Longrightarrow> p \<noteq> Dump \<Longrightarrow> faults (snd (write_status k d w)) p = faults w p"
  by (auto simp: write_status_unfold split: prod.splits sum.splits option.splits list.splits)

lemma tasks_write_status: "tasks (snd (write_status k d w)) = tasks w"
  by (auto simp: write_status_unfold split: prod.splits sum.splits option.splits list.splits)

lemma source_write_status:
  "issued (snd (write_status k d w)) = issued w \<and> uuids (snd (write_status k d w)) = uuids w"
  by (auto simp: write_status_unfold split: prod.splits sum.splits option.splits list.splits)

lemma files_write_status_other:
  "p \<noteq> status_path k \<Longrightarrow> files (snd (write_status k d w)) p = files w p"
  by (auto simp: write_status_unfold split: prod.splits sum.splits option.splits list.splits)

lemma files_write_status_ok:
  "fst (write_status k d w) = Inr u \<Longrightarrow>
     files (snd (write_status k d w)) (status_path k) = Some (Holds d)"
  by (auto simp: write_status_unfold split: prod.splits sum.splits option.splits list.splits)

text \<open>A write leaves under its key what was there, an unreadable file, or the document.\<close>

lemma files_write_status_key:
  "files (snd (write_status k d w)) (status_path k) = files w (status_path k)
   \<or> files (snd (write_status k d w)) (status_path k) = Some Garbled
   \<or> files (snd (write_status k d w)) (status_path k) = Some (Holds d)"
  by (auto simp: write_status_unfold split: prod.splits sum.splits option.splits list.splits)

section \<open>Facts about the worker\<close>

lemma faults_try_body:
  "p \<noteq> Open \<Longrightarrow> p \<noteq> Dump \<Longrightarrow> faults (snd (try_body c k tmp w)) p = faults w p"
  by (simp add: try_body_def seedr_upload_file_def split_def log_def faults_write_status
      split: sum.splits)

lemma faults_except_clause:
  "p \<noteq> Open \<Longrightarrow> p \<noteq> Dump \<Longrightarrow> faults (snd (except_clause k e w)) p = faults w p"
  by (simp add: except_clause_def log_def faults_write_status)

lemma faults_try_except:
  "p \<noteq> Open \<Longrightarrow> p \<noteq> Dump \<Longrightarrow> faults (snd (try_except c k tmp w)) p = faults w p"
  by (simp add: try_except_def split_def faults_try_body faults_except_clause split: sum.splits)

lemma files_try_except_other:
  "p \<noteq> status_path k \<Longrightarrow> files (snd (try_except c k tmp w)) p = files w p"
  by (simp add: try_except_def try_body_def except_clause_def seedr_upload_file_def split_def
      log_def files_write_status_other split: sum.splits)

lemma snd_worker:
  "snd (upload_to_seedr_in_background c k tmp w) =
     snd (finally_clause tmp (snd (try_except c k tmp w)))"
  by (simp add: upload_to_seedr_in_background_def split_def split: sum.splits)

lemma finally_clause_removes:
  "next_fault Remove w = None \<Longrightarrow> files (snd (finally_clause tmp w)) tmp = None"
  by (auto simp: removal_unfold split: list.splits option.splits)

lemma finally_clause_raises:
  "next_fault Remove w = Some e \<Longrightarrow> files w tmp = Some x \<Longrightarrow>
     fst (finally_clause tmp w) = Inl e \<and> files (snd (finally_clause tmp w)) tmp = Some x"
  by (auto simp: removal_unfold split: list.splits option.splits)

lemma trace_finally_clause:
  "trace (snd (finally_clause tmp w)) =
     trace w @ (if files w tmp \<noteq> None \<and> next_fault Remove w = None then [Removed tmp] else [])"
  by (auto simp: removal_unfold split: list.splits option.splits)

lemma files_finally_clause:
  "files (snd (finally_clause tmp w)) p = files w p \<or> files (snd (finally_clause tmp w)) p = None"
  by (auto simp: removal_unfold split: list.splits option.splits)

lemma files_finally_clause_other:
  "p \<noteq> tmp \<Longrightarrow> files (snd (finally_clause tmp w)) p = files w p"
  by (auto simp: removal_unfold split: list.splits option.splits)

text \<open>
  When \<open>os.remove\<close> itself raises, the staged file stays and the exception leaves the
  worker (the staged file is not the status file of the job).
\<close>

lemma cleanup_fault_keeps_file:
  assumes "next_fault Remove w = Some e" and "files w tmp = Some x" and "tmp \<noteq> status_path k"
  shows "fst (upload_to_seedr_in_background c k tmp w) = Inl e
       \<and> files (snd (upload_to_seedr_in_background c k tmp w)) tmp = Some x"
proof -
  let ?w1 = "snd (try_except c k tmp w)"
  have "next_fault Remove ?w1 = Some e"
    using assms(1) by (simp add: next_fault_def faults_try_except)
  moreover have "files ?w1 tmp = Some x"
    using assms(2,3) by (simp add: files_try_except_other)
  ultimately have "fst (finally_clause tmp ?w1) = Inl e \<and>
      files (snd (finally_clause tmp ?w1)) tmp = Some x"
    by (rule finally_clause_raises)
  then show ?thesis
    by (simp add: upload_to_seedr_in_background_def split_def)
qed

lemma try_except_writes:
  "\<exists>evs. trace (snd (try_except c k tmp w)) = trace w @ evs \<and>
       worker_shape c k tmp (status_writes evs)"
  by (auto simp: try_except_def try_body_def except_clause_def seedr_upload_file_def split_def
      worker_shape_def trace_write_status log_def split: sum.splits)

lemma worker_writes:
  "worker_shape c k tmp
     (status_writes (emitted w (snd (upload_to_seedr_in_background c k tmp w))))"
proof -
  obtain evs where evs: "trace (snd (try_except c k tmp w)) = trace w @ evs"
      and shape: "worker_shape c k tmp (status_writes evs)"
    using try_except_writes by blast
  have "status_writes (emitted w (snd (upload_to_seedr_in_background c k tmp w))) =
      status_writes evs"
    by (simp add: snd_worker trace_finally_clause evs emitted_def status_writes_append)
  then show ?thesis
    using shape by simp
qed

lemma try_except_remote_raises:
  assumes "upload_file_reply c tmp = Inl e"
  shows "\<exists>evs ok1 ok2. trace (snd (try_except c k tmp w)) = trace w @ evs \<and>
           status_writes evs = [(k, processing_record, ok1), (k, failed_record, ok2)] \<and>
           (ok2 \<longrightarrow>
              files (snd (try_except c k tmp w)) (status_path k) = Some (Holds failed_record))"
  using assms
  by (auto simp: try_except_def try_body_def except_clause_def seedr_upload_file_def split_def
      trace_write_status log_def files_write_status_ok split: sum.splits)

lemma files_except_clause_key:
  "files (snd (except_clause k e w)) (status_path k) = files w (status_path k)
   \<or> files (snd (except_clause k e w)) (status_path k) = Some Garbled
   \<or> files (snd (except_clause k e w)) (status_path k) = Some (Holds failed_record)"
  using files_write_status_key [of k failed_record
      "log (LogError (''Upload failed for file_id '' @ k @ '': '' @ exn_text e)) w"]
  by (simp add: except_clause_def log_def)

lemma try_except_remote_raises_key:
  assumes "upload_file_reply c tmp = Inl e"
      and "files (snd (try_except c k tmp w)) (status_path k) = Some (Holds d)"
  shows "d = processing_record \<or> d = failed_record \<or> files w (status_path k) = Some (Holds d)"
proof -
  let ?w1 = "snd (write_status k processing_record w)"
  have first: "files ?w1 (status_path k) = Some (Holds d) \<Longrightarrow>
      d = processing_record \<or> files w (status_path k) = Some (Holds d)"
    using files_write_status_key [of k processing_record w] by auto
  show ?thesis
  proof (cases "fst (write_status k processing_record w)")
    case (Inl e1)
    then have "snd (try_except c k tmp w) = snd (except_clause k e1 ?w1)"
      by (simp add: try_except_def try_body_def split_def)
    then show ?thesis
      using assms(2) first files_except_clause_key [of k e1 ?w1] by auto
  next
    case (Inr u)
    then have "snd (try_except c k tmp w) =
        snd (except_clause k e (log (RemoteUpload tmp) ?w1))"
      using assms(1) by (simp add: try_except_def try_body_def split_def seedr_upload_file_def)
    then show ?thesis
      using assms(2) first files_except_clause_key [of k e "log (RemoteUpload tmp) ?w1"]
      by (auto simp: log_def)
  qed
qed

section \<open>Facts about the dispatcher\<close>

lemma stage_raises:
  assumes "fst (stage tmp src w) = Inl e"
  shows "trace (snd (stage tmp src w)) = trace w"
    and "tasks (snd (stage tmp src w)) = tasks w"
    and "p \<noteq> tmp \<Longrightarrow> files (snd (stage tmp src w)) p = files w p"
  using assms
  by (auto simp: stage_def open_w_def copyfileobj_def attempt_def log_def
      split: prod.splits sum.splits option.splits list.splits)

lemma stage_returns:
  assumes "fst (stage tmp src w) = Inr u"
  shows "trace (snd (stage tmp src w)) = trace w @ [Staged tmp]"
    and "tasks (snd (stage tmp src w)) = tasks w"
    and "files (snd (stage tmp src w)) tmp = Some src"
  using assms
  by (auto simp: stage_def open_w_def copyfileobj_def attempt_def log_def
      split: prod.splits sum.splits option.splits list.splits)

lemma source_stage:
  "issued (snd (stage tmp src w)) = issued w \<and> uuids (snd (stage tmp src w)) = uuids w"
  by (auto simp: stage_def open_w_def copyfileobj_def attempt_def log_def
      split: prod.splits sum.splits option.splits list.splits)

lemma upload_file_writes:
  "status_writes (emitted w (snd (upload_file filename src w))) = [] \<or>
   (\<exists>ok. status_writes (emitted w (snd (upload_file filename src w))) =
      [(uuids w (issued w), pending_record, ok)])"
proof (cases "fst (stage (tmp_path_of (fst (uuid4 w)) filename) src (snd (uuid4 w)))")
  case (Inl e)
  then have "upload_file filename src w =
      (Inl e, snd (stage (tmp_path_of (fst (uuid4 w)) filename) src (snd (uuid4 w))))"
    by (simp add: upload_file_def split_def Let_def)
  then show ?thesis
    using stage_raises(1) [OF Inl] by (simp add: emitted_def uuid4_def log_def Let_def)
next
  case (Inr u)
  let ?k = "fst (uuid4 w)"
  let ?tmp = "tmp_path_of ?k filename"
  let ?w3 = "add_task ?k ?tmp (snd (stage ?tmp src (snd (uuid4 w))))"
  have "snd (upload_file filename src w) = snd (write_status ?k pending_record ?w3)"
    using Inr by (simp add: upload_file_def split_def Let_def split: sum.splits)
  then show ?thesis
    using stage_returns(1) [OF Inr]
    by (simp add: emitted_def trace_write_status add_task_def uuid4_def log_def Let_def)
qed

lemma delete_item_writes: "status_writes (emitted w (snd (delete_item c i t w))) = []"
  by (simp add: delete_item_def seedr_delete_file_def seedr_delete_folder_def emitted_def log_def
      Let_def split_def split: sum.splits option.splits)

section \<open>Properties of the status store\<close>

text \<open>
  Claim C8. For every job id and every record, a \<open>write_status\<close> that returns, followed by
  \<open>read_status\<close> of the same id, gives exactly that record, whatever the store held under
  the key before.
\<close>

theorem write_then_read:
  "fst (write_status file_id d w) = Inr () \<Longrightarrow>
     read_status file_id (snd (write_status file_id d w)) = Inr (Some d)"
  by (simp add: read_status_def os_path_exists_def files_write_status_ok)

theorem write_then_read_witness:
  "files odd_store_world (status_path ''job-2'') = Some (Holds pending_record)
   \<and> fst (write_status ''job-2'' (completed_record (JNum 7)) odd_store_world) = Inr ()
   \<and> read_status ''job-2'' (snd (write_status ''job-2'' (completed_record (JNum 7)) odd_store_world))
       = Inr (Some (completed_record (JNum 7)))"
proof -
  have h: "fst (write_status ''job-2'' (completed_record (JNum 7)) odd_store_world) = Inr ()"
    by (simp add: run_defs sample_defs)
  have "files odd_store_world (status_path ''job-2'') = Some (Holds pending_record)"
    by (simp add: run_defs sample_defs)
  then show ?thesis
    using h write_then_read [OF h] by simp
qed

section \<open>Properties of the status query endpoint\<close>

text \<open>
  Claim C10. A stored document that Python takes as false, the empty document \<open>{}\<close>
  for one, is answered with the 404 response, although a file exists for the id: the
  endpoint tests the truth value of what \<open>read_status\<close> returned, not its absence.
\<close>

theorem falsy_record_not_found:
  "files w (status_path file_id) = Some (Holds d) \<Longrightarrow> \<not> truthy d \<Longrightarrow>
     get_upload_status file_id w = Inr not_found \<and> status_code not_found = 404"
  by (simp add: get_upload_status_def read_status_def os_path_exists_def not_found_def)

theorem falsy_record_not_found_witness:
  "files (quiet_world\<lparr>files := [status_path ''job-9'' \<mapsto> Holds (JObj [])]\<rparr>) (status_path ''job-9'')
     = Some (Holds (JObj []))
   \<and> \<not> truthy (JObj [])
   \<and> get_upload_status ''job-9'' (quiet_world\<lparr>files := [status_path ''job-9'' \<mapsto> Holds (JObj [])]\<rparr>)
       = Inr not_found
   \<and> status_code not_found = 404"
proof -
  have h: "files (quiet_world\<lparr>files := [status_path ''job-9'' \<mapsto> Holds (JObj [])]\<rparr>)
      (status_path ''job-9'') = Some (Holds (JObj []))"
    by simp
  have t: "\<not> truthy (JObj [])"
    by simp
  show ?thesis
    using h t falsy_record_not_found [OF h t] by simp
qed



section \<open>Properties of the delete endpoint\<close>

text \<open>
  Claim C9. For every item id: with \<open>item_type\<close> equal to \<open>"file"\<close> the endpoint makes
  one remote call, \<open>delete_file\<close>; with \<open>"folder"\<close> one remote call, \<open>delete_folder\<close>;
  a request without \<open>item_type\<close> is the request with \<open>"file"\<close>; every other value is
  answered with status 400 and the message, and the world is as before: no remote call.
\<close>

theorem delete_item_dispatch:
  "emitted w (snd (delete_item c item_id (Some ''file'') w)) = [RemoteDeleteFile item_id]
   \<and> fst (delete_item c item_id (Some ''file'') w) =
       (case delete_file_reply c item_id of
          Inl e \<Rightarrow> Inl e
        | Inr result \<Rightarrow> Inr \<lparr>status_code = 200, content = result\<rparr>)
   \<and> emitted w (snd (delete_item c item_id (Some ''folder'') w)) = [RemoteDeleteFolder item_id]
   \<and> fst (delete_item c item_id (Some ''folder'') w) =
       (case delete_folder_reply c item_id of
          Inl e \<Rightarrow> Inl e
        | Inr result \<Rightarrow> Inr \<lparr>status_code = 200, content = result\<rparr>)
   \<and> delete_item c item_id None w = delete_item c item_id (Some ''file'') w
   \<and> (t \<noteq> ''file'' \<and> t \<noteq> ''folder'' \<longrightarrow>
        delete_item c item_id (Some t) w =
          (Inr \<lparr>status_code = 400, content = invalid_item_type\<rparr>, w)
        \<and> emitted w (snd (delete_item c item_id (Some t) w)) = [])"
  by (simp add: delete_item_def seedr_delete_file_def seedr_delete_folder_def emitted_def log_def
      split: sum.splits)

theorem delete_item_dispatch_witness:
  "''bogus'' \<noteq> ''file'' \<and> ''bogus'' \<noteq> ''folder''
   \<and> delete_item obliging_client ''42'' (Some ''bogus'') quiet_world =
       (Inr \<lparr>status_code = 400, content = invalid_item_type\<rparr>, quiet_world)
   \<and> emitted quiet_world (snd (delete_item obliging_client ''42'' (Some ''bogus'') quiet_world)) = []
   \<and> emitted quiet_world (snd (delete_item obliging_client ''42'' None quiet_world)) =
       [RemoteDeleteFile ''42'']
   \<and> emitted quiet_world (snd (delete_item obliging_client ''42'' (Some ''folder'') quiet_world)) =
       [RemoteDeleteFolder ''42'']"
  using delete_item_dispatch [of quiet_world obliging_client "''42''" "''bogus''"]
  by (simp add: emitted_def)

section \<open>Properties of the worker\<close>

text \<open>
  Claim C2 as it is written fails. On \<open>stuck_file_world\<close> the remote upload returns
  and both status writes return, and \<open>os.remove\<close> raises in the \<open>finally\<close> clause:
  the exception leaves the worker, and the staged file is still on disk.
\<close>

theorem staged_file_removed_counterexample:
  "os_path_exists ''/tmp/job-1-a.bin'' stuck_file_world
   \<and> status_writes (emitted stuck_file_world
        (snd (upload_to_seedr_in_background obliging_client ''job-1'' ''/tmp/job-1-a.bin''
                stuck_file_world))) =
       [(''job-1'', JObj [(''status'', JStr ''processing'')], True),
        (''job-1'', JObj [(''status'', JStr ''completed''),
                          (''result'', JObj [(''success'', JBool True)])], True)]
   \<and> fst (upload_to_seedr_in_background obliging_client ''job-1'' ''/tmp/job-1-a.bin''
            stuck_file_world) = Inl (Raised ''Permission denied'')
   \<and> os_path_exists ''/tmp/job-1-a.bin''
        (snd (upload_to_seedr_in_background obliging_client ''job-1'' ''/tmp/job-1-a.bin''
                stuck_file_world))"
  by (simp add: run_defs sample_defs)

text \<open>
  Claim C2, amended. For every job and every exit path of the worker (the remote upload
  returns, the remote upload raises, a status write raises, in the body or in the
  handler), once the worker has finished no file is left at the path it was given,
  provided that the call of \<open>os.remove\<close> in the \<open>finally\<close> clause does not itself
  raise.
\<close>

theorem staged_file_removed:
  "next_fault Remove w = None \<Longrightarrow>
     \<not> os_path_exists tmp (snd (upload_to_seedr_in_background c file_id tmp w))"
proof -
  assume ok: "next_fault Remove w = None"
  have "faults (snd (try_except c file_id tmp w)) Remove = faults w Remove"
    by (simp add: faults_try_except)
  then have "next_fault Remove (snd (try_except c file_id tmp w)) = None"
    using ok by (simp add: next_fault_def)
  then have "files (snd (finally_clause tmp (snd (try_except c file_id tmp w)))) tmp = None"
    by (rule finally_clause_removes)
  then show ?thesis
    by (simp add: os_path_exists_def snd_worker)
qed

theorem staged_file_removed_witness:
  "os_path_exists ''/tmp/job-1-a.bin'' full_disk_world
   \<and> next_fault Remove full_disk_world = None
   \<and> fst (upload_to_seedr_in_background refusing_client ''job-1'' ''/tmp/job-1-a.bin''
            full_disk_world) = Inl (Raised ''No space left on device'')
   \<and> \<not> os_path_exists ''/tmp/job-1-a.bin''
         (snd (upload_to_seedr_in_background refusing_client ''job-1'' ''/tmp/job-1-a.bin''
                 full_disk_world))"
proof -
  have h: "next_fault Remove full_disk_world = None"
    by (simp add: run_defs sample_defs)
  have "os_path_exists ''/tmp/job-1-a.bin'' full_disk_world"
    by (simp add: run_defs sample_defs)
  moreover have "fst (upload_to_seedr_in_background refusing_client ''job-1'' ''/tmp/job-1-a.bin''
            full_disk_world) = Inl (Raised ''No space left on device'')"
    by (simp add: run_defs sample_defs)
  ultimately show ?thesis
    using h staged_file_removed [OF h] by simp
qed

text \<open>
  Claim C1 as it is written fails. On \<open>full_disk_world\<close> the write of \<open>processing\<close>
  returns, the remote upload returns, and the writes of \<open>completed\<close> and of \<open>failed\<close>
  both raise: the worker calls \<open>write_status\<close> with two terminal records, the second
  after the first, and the only record that reaches the store is \<open>processing\<close>.
\<close>

theorem worker_lifecycle_counterexample:
  "write_calls (emitted full_disk_world
      (snd (upload_to_seedr_in_background obliging_client ''job-1'' ''/tmp/job-1-a.bin''
              full_disk_world))) =
     [(''job-1'', JObj [(''status'', JStr ''processing'')]),
      (''job-1'', JObj [(''status'', JStr ''completed''),
                        (''result'', JObj [(''success'', JBool True)])]),
      (''job-1'', JObj [(''status'', JStr ''failed''),
                        (''error'', JStr ''Upload process failed.'')])]
   \<and> writes_done (emitted full_disk_world
      (snd (upload_to_seedr_in_background obliging_client ''job-1'' ''/tmp/job-1-a.bin''
              full_disk_world))) =
     [(''job-1'', JObj [(''status'', JStr ''processing'')])]
   \<and> \<not> lifecycle ''job-1'' (write_calls (emitted full_disk_world
      (snd (upload_to_seedr_in_background obliging_client ''job-1'' ''/tmp/job-1-a.bin''
              full_disk_world))))
   \<and> \<not> lifecycle ''job-1'' (writes_done (emitted full_disk_world
      (snd (upload_to_seedr_in_background obliging_client ''job-1'' ''/tmp/job-1-a.bin''
              full_disk_world))))"
  by (simp add: run_defs sample_defs write_calls_def writes_done_def lifecycle_def)

text \<open>
  Claim C1, amended. For every job in which every status write of the worker returns
  normally, the worker's sequence of status store writes for the job's key is: first the
  record with status \<open>processing\<close>, then exactly one record with a terminal status,
  \<open>completed\<close> with the payload when the remote upload returned and \<open>failed\<close> when
  it raised; no write skips \<open>processing\<close> and none follows the terminal one.
\<close>

theorem worker_lifecycle:
  assumes "\<forall>(k', d, ok) \<in> set (status_writes
              (emitted w (snd (upload_to_seedr_in_background c k tmp w)))). ok"
  shows "write_calls (emitted w (snd (upload_to_seedr_in_background c k tmp w))) =
           [(k, processing_record),
            (k, case upload_file_reply c tmp of
                  Inr r \<Rightarrow> completed_record r
                | Inl e \<Rightarrow> failed_record)]
         \<and> writes_done (emitted w (snd (upload_to_seedr_in_background c k tmp w))) =
             write_calls (emitted w (snd (upload_to_seedr_in_background c k tmp w)))
         \<and> lifecycle k (write_calls (emitted w (snd (upload_to_seedr_in_background c k tmp w))))"
  using assms worker_writes [of c k tmp w]
  by (auto simp: worker_shape_def write_calls_def writes_done_def lifecycle_def terminal_def
      status_of_def processing_record_def completed_record_def failed_record_def)

theorem worker_lifecycle_witness:
  "status_writes (emitted staged_world
        (snd (upload_to_seedr_in_background obliging_client ''job-1'' ''/tmp/job-1-a.bin''
                staged_world))) =
       [(''job-1'', JObj [(''status'', JStr ''processing'')], True),
        (''job-1'', JObj [(''status'', JStr ''completed''),
                          (''result'', JObj [(''success'', JBool True)])], True)]
   \<and> write_calls (emitted staged_world
        (snd (upload_to_seedr_in_background obliging_client ''job-1'' ''/tmp/job-1-a.bin''
                staged_world))) =
       [(''job-1'', JObj [(''status'', JStr ''processing'')]),
        (''job-1'', JObj [(''status'', JStr ''completed''),
                          (''result'', JObj [(''success'', JBool True)])])]
   \<and> lifecycle ''job-1'' (write_calls (emitted staged_world
        (snd (upload_to_seedr_in_background obliging_client ''job-1'' ''/tmp/job-1-a.bin''
                staged_world))))"
proof -
  have sw: "status_writes (emitted staged_world
        (snd (upload_to_seedr_in_background obliging_client ''job-1'' ''/tmp/job-1-a.bin''
                staged_world))) =
       [(''job-1'', JObj [(''status'', JStr ''processing'')], True),
        (''job-1'', JObj [(''status'', JStr ''completed''),
                          (''result'', JObj [(''success'', JBool True)])], True)]"
    by (simp add: run_defs sample_defs)
  have h: "\<forall>(k', d, ok) \<in> set (status_writes (emitted staged_world
        (snd (upload_to_seedr_in_background obliging_client ''job-1'' ''/tmp/job-1-a.bin''
                staged_world)))). ok"
    unfolding sw by simp
  have r: "upload_file_reply obliging_client ''/tmp/job-1-a.bin'' =
      Inr (JObj [(''success'', JBool True)])"
    by (simp add: obliging_client_def)
  have c: "write_calls (emitted staged_world
        (snd (upload_to_seedr_in_background obliging_client ''job-1'' ''/tmp/job-1-a.bin''
                staged_world))) =
       [(''job-1'', processing_record),
        (''job-1'', case upload_file_reply obliging_client ''/tmp/job-1-a.bin'' of
                      Inr r \<Rightarrow> completed_record r
                    | Inl e \<Rightarrow> failed_record)]"
    and l: "lifecycle ''job-1'' (write_calls (emitted staged_world
        (snd (upload_to_seedr_in_background obliging_client ''job-1'' ''/tmp/job-1-a.bin''
                staged_world))))"
    using worker_lifecycle [OF h] by blast+
  show ?thesis
    using sw c l by (simp add: r processing_record_def completed_record_def)
qed

text \<open>
  Claim C5. For every exception the remote upload call raises, the worker calls
  \<open>write_status\<close> with the record of status \<open>failed\<close> whose error field is the fixed
  string \<open>Upload process failed.\<close>, the same for every exception. When that call
  returns, the record is what the store holds under the key (the staged file not being
  the status file itself). In every case a document found under the key after the run is
  the \<open>processing\<close> record, that fixed record, or what was there before the run: the
  text of the exception reaches no stored record.
\<close>

theorem remote_failure_recorded:
  assumes "upload_file_reply c tmp = Inl e"
  shows "(\<exists>ok1 ok2.
            status_writes (emitted w (snd (upload_to_seedr_in_background c k tmp w))) =
              [(k, processing_record, ok1),
               (k, JObj [(''status'', JStr ''failed''),
                         (''error'', JStr ''Upload process failed.'')], ok2)] \<and>
            (ok2 \<and> tmp \<noteq> status_path k \<longrightarrow>
               files (snd (upload_to_seedr_in_background c k tmp w)) (status_path k) =
                 Some (Holds (JObj [(''status'', JStr ''failed''),
                                    (''error'', JStr ''Upload process failed.'')]))))
       \<and> (\<forall>d. files (snd (upload_to_seedr_in_background c k tmp w)) (status_path k) =
                 Some (Holds d) \<longrightarrow>
              d = JObj [(''status'', JStr ''processing'')] \<or>
              d = JObj [(''status'', JStr ''failed''),
                        (''error'', JStr ''Upload process failed.'')] \<or>
              files w (status_path k) = Some (Holds d))"
proof (intro conjI allI impI)
  obtain evs ok1 ok2 where evs: "trace (snd (try_except c k tmp w)) = trace w @ evs"
      and sw: "status_writes evs = [(k, processing_record, ok1), (k, failed_record, ok2)]"
      and stored: "ok2 \<longrightarrow>
        files (snd (try_except c k tmp w)) (status_path k) = Some (Holds failed_record)"
    using try_except_remote_raises [OF assms] by blast
  have "status_writes (emitted w (snd (upload_to_seedr_in_background c k tmp w))) =
      status_writes evs"
    by (simp add: snd_worker trace_finally_clause evs emitted_def status_writes_append)
  moreover have "ok2 \<and> tmp \<noteq> status_path k \<longrightarrow>
      files (snd (upload_to_seedr_in_background c k tmp w)) (status_path k) =
        Some (Holds failed_record)"
    using stored files_finally_clause_other [of "status_path k" tmp "snd (try_except c k tmp w)"]
    by (auto simp: snd_worker)
  ultimately show "\<exists>ok1 ok2.
            status_writes (emitted w (snd (upload_to_seedr_in_background c k tmp w))) =
              [(k, processing_record, ok1),
               (k, JObj [(''status'', JStr ''failed''),
                         (''error'', JStr ''Upload process failed.'')], ok2)] \<and>
            (ok2 \<and> tmp \<noteq> status_path k \<longrightarrow>
               files (snd (upload_to_seedr_in_background c k tmp w)) (status_path k) =
                 Some (Holds (JObj [(''status'', JStr ''failed''),
                                    (''error'', JStr ''Upload process failed.'')])))"
    using sw unfolding failed_record_def
    by (intro exI [of _ ok1] exI [of _ ok2]) simp
next
  fix d
  assume d: "files (snd (upload_to_seedr_in_background c k tmp w)) (status_path k) =
      Some (Holds d)"
  then have "files (snd (try_except c k tmp w)) (status_path k) = Some (Holds d)"
    using files_finally_clause [of tmp "snd (try_except c k tmp w)" "status_path k"]
    by (simp add: snd_worker)
  then show "d = JObj [(''status'', JStr ''processing'')] \<or>
             d = JObj [(''status'', JStr ''failed''),
                       (''error'', JStr ''Upload process failed.'')] \<or>
             files w (status_path k) = Some (Holds d)"
    using try_except_remote_raises_key [OF assms]
    by (simp add: processing_record_def failed_record_def)
qed

theorem remote_failure_recorded_witness:
  "upload_file_reply refusing_client ''/tmp/job-1-a.bin'' = Inl (Raised ''401 token expired'')
   \<and> ''/tmp/job-1-a.bin'' \<noteq> status_path ''job-1''
   \<and> status_writes (emitted staged_world
        (snd (upload_to_seedr_in_background refusing_client ''job-1'' ''/tmp/job-1-a.bin''
                staged_world))) =
       [(''job-1'', processing_record, True),
        (''job-1'', JObj [(''status'', JStr ''failed''),
                          (''error'', JStr ''Upload process failed.'')], True)]
   \<and> files (snd (upload_to_seedr_in_background refusing_client ''job-1'' ''/tmp/job-1-a.bin''
                staged_world)) (status_path ''job-1'') =
       Some (Holds (JObj [(''status'', JStr ''failed''),
                          (''error'', JStr ''Upload process failed.'')]))
   \<and> LogError ''Upload failed for file_id job-1: 401 token expired''
       \<in> set (emitted staged_world
        (snd (upload_to_seedr_in_background refusing_client ''job-1'' ''/tmp/job-1-a.bin''
                staged_world)))"
proof -
  have h: "upload_file_reply refusing_client ''/tmp/job-1-a.bin'' =
      Inl (Raised ''401 token expired'')"
    by (simp add: refusing_client_def)
  have p: "''/tmp/job-1-a.bin'' \<noteq> status_path ''job-1''"
    by (simp add: run_defs)
  have l: "LogError ''Upload failed for file_id job-1: 401 token expired''
       \<in> set (emitted staged_world
        (snd (upload_to_seedr_in_background refusing_client ''job-1'' ''/tmp/job-1-a.bin''
                staged_world)))"
    by (simp add: run_defs sample_defs)
  obtain ok1 ok2 where
      sw: "status_writes (emitted staged_world
            (snd (upload_to_seedr_in_background refusing_client ''job-1'' ''/tmp/job-1-a.bin''
                    staged_world))) =
           [(''job-1'', processing_record, ok1),
            (''job-1'', JObj [(''status'', JStr ''failed''),
                              (''error'', JStr ''Upload process failed.'')], ok2)]"
      and st: "ok2 \<and> ''/tmp/job-1-a.bin'' \<noteq> status_path ''job-1'' \<longrightarrow>
           files (snd (upload_to_seedr_in_background refusing_client ''job-1''
                        ''/tmp/job-1-a.bin'' staged_world)) (status_path ''job-1'') =
             Some (Holds (JObj [(''status'', JStr ''failed''),
                                (''error'', JStr ''Upload process failed.'')]))"
    using remote_failure_recorded [OF h, of staged_world "''job-1''"] by blast
  have ev: "status_writes (emitted staged_world
            (snd (upload_to_seedr_in_background refusing_client ''job-1'' ''/tmp/job-1-a.bin''
                    staged_world))) =
           [(''job-1'', processing_record, True), (''job-1'', failed_record, True)]"
    by (simp add: run_defs sample_defs)
  have "ok1" and "ok2"
    using sw ev by simp_all
  then show ?thesis
    using h p l sw st by simp
qed

text \<open>
  Claim C7. Every record that an operation of the system hands to \<open>write_status\<close> (the
  dispatcher, the worker; the delete endpoint writes none) has a \<open>result\<close> field exactly
  when its status is \<open>completed\<close> and an \<open>error\<close> field exactly when its status is
  \<open>failed\<close>, and its status is one of the four; so a \<open>pending\<close> or \<open>processing\<close>
  record has neither field.
\<close>

theorem written_records_well_formed:
  "\<forall>(k, d, ok) \<in> set (status_writes (emitted w1 (snd (upload_file filename src w1)))
        @ status_writes (emitted w2 (snd (upload_to_seedr_in_background c file_id tmp w2)))
        @ status_writes (emitted w3 (snd (delete_item c item_id item_type w3)))).
     record_ok d \<and>
     status_of d \<in> {Some ''pending'', Some ''processing'', Some ''completed'', Some ''failed''}"
  using upload_file_writes [of w1 filename src] worker_writes [of c file_id tmp w2]
  by (auto simp: delete_item_writes worker_shape_def record_ok_def has_field_def status_of_def
      pending_record_def processing_record_def completed_record_def failed_record_def)

theorem written_records_well_formed_witness:
  "status_writes (emitted quiet_world (snd (upload_file ''a.bin'' Garbled quiet_world)))
        @ status_writes (emitted staged_world
            (snd (upload_to_seedr_in_background obliging_client ''job-1'' ''/tmp/job-1-a.bin''
                    staged_world)))
        @ status_writes (emitted quiet_world
            (snd (delete_item obliging_client ''42'' None quiet_world))) =
     [(''job-1'', pending_record, True), (''job-1'', processing_record, True),
      (''job-1'', completed_record (JObj [(''success'', JBool True)]), True)]
   \<and> record_ok pending_record \<and> record_ok processing_record
   \<and> record_ok (completed_record (JObj [(''success'', JBool True)]))
   \<and> \<not> has_field pending_record ''result'' \<and> \<not> has_field pending_record ''error''
   \<and> has_field (completed_record (JObj [(''success'', JBool True)])) ''result''"
proof -
  have m: "status_writes (emitted quiet_world (snd (upload_file ''a.bin'' Garbled quiet_world)))
        @ status_writes (emitted staged_world
            (snd (upload_to_seedr_in_background obliging_client ''job-1'' ''/tmp/job-1-a.bin''
                    staged_world)))
        @ status_writes (emitted quiet_world
            (snd (delete_item obliging_client ''42'' None quiet_world))) =
     [(''job-1'', pending_record, True), (''job-1'', processing_record, True),
      (''job-1'', completed_record (JObj [(''success'', JBool True)]), True)]"
    by (simp add: run_defs sample_defs)
  have f: "\<not> has_field pending_record ''result'' \<and> \<not> has_field pending_record ''error''
      \<and> has_field (completed_record (JObj [(''success'', JBool True)])) ''result''"
    by (simp add: has_field_def pending_record_def completed_record_def)
  show ?thesis
    using m f written_records_well_formed [of quiet_world "''a.bin''" Garbled staged_world
        obliging_client "''job-1''" "''/tmp/job-1-a.bin''" quiet_world "''42''" None]
    by simp
qed

section \<open>Properties of the dispatcher\<close>

text \<open>
  Claim C3. For every upload request in which staging the bytes to the temporary file
  raises (the \<open>open\<close> or the copy), the dispatcher raises that exception to the caller,
  who gets the response of the generic handler; it has made no call of \<open>write_status\<close>
  and has added no background task: all it did was to draw the job id, and no file but
  the temporary one can differ from before.
\<close>

theorem staging_failure_creates_no_job:
  assumes "fst (stage (tmp_path_of (fst (uuid4 w)) filename) src (snd (uuid4 w))) = Inl e"
  shows "fst (upload_file filename src w) = Inl e
       \<and> generic_exception_handler (fst (upload_file filename src w)) =
           \<lparr>status_code = 500,
            content = JObj [(''message'', JStr ''An internal server error occurred.'')]\<rparr>
       \<and> emitted w (snd (upload_file filename src w)) = [Generated (fst (uuid4 w))]
       \<and> status_writes (emitted w (snd (upload_file filename src w))) = []
       \<and> tasks (snd (upload_file filename src w)) = tasks w
       \<and> (\<forall>p. p \<noteq> tmp_path_of (fst (uuid4 w)) filename \<longrightarrow>
             files (snd (upload_file filename src w)) p = files w p)"
proof -
  let ?tmp = "tmp_path_of (fst (uuid4 w)) filename"
  have up: "upload_file filename src w = (Inl e, snd (stage ?tmp src (snd (uuid4 w))))"
    using assms by (simp add: upload_file_def split_def Let_def)
  have tr: "trace (snd (stage ?tmp src (snd (uuid4 w)))) = trace w @ [Generated (fst (uuid4 w))]"
    using stage_raises(1) [OF assms] by (simp add: uuid4_def log_def Let_def)
  have ta: "tasks (snd (stage ?tmp src (snd (uuid4 w)))) = tasks w"
    using stage_raises(2) [OF assms] by (simp add: uuid4_def log_def Let_def)
  have fi: "\<forall>p. p \<noteq> ?tmp \<longrightarrow> files (snd (stage ?tmp src (snd (uuid4 w)))) p = files w p"
    using stage_raises(3) [OF assms] by (simp add: uuid4_def log_def Let_def)
  show ?thesis
    using tr ta fi by (simp add: up generic_exception_handler_def emitted_def)
qed

theorem staging_failure_creates_no_job_witness:
  "fst (stage (tmp_path_of (fst (uuid4 no_space_world)) ''a.bin'') Garbled
          (snd (uuid4 no_space_world))) = Inl (Raised ''No space left on device'')
   \<and> fst (upload_file ''a.bin'' Garbled no_space_world) = Inl (Raised ''No space left on device'')
   \<and> emitted no_space_world (snd (upload_file ''a.bin'' Garbled no_space_world)) =
       [Generated ''job-1'']
   \<and> tasks (snd (upload_file ''a.bin'' Garbled no_space_world)) = []
   \<and> files (snd (upload_file ''a.bin'' Garbled no_space_world)) (status_path ''job-1'') = None"
proof -
  have h: "fst (stage (tmp_path_of (fst (uuid4 no_space_world)) ''a.bin'') Garbled
          (snd (uuid4 no_space_world))) = Inl (Raised ''No space left on device'')"
    by (simp add: run_defs sample_defs)
  have u: "fst (uuid4 no_space_world) = ''job-1''"
    by (simp add: run_defs sample_defs)
  have t: "tasks no_space_world = []"
    by (simp add: sample_defs)
  have p: "status_path ''job-1'' \<noteq> tmp_path_of ''job-1'' ''a.bin''"
    by (simp add: run_defs)
  have f: "files no_space_world (status_path ''job-1'') = None"
    by (simp add: sample_defs)
  show ?thesis
    using h staging_failure_creates_no_job [OF h] u t p f by simp
qed

text \<open>
  Claim C4 as it is written fails on the order of the last two steps. On \<open>quiet_world\<close>
  the request succeeds with status 202, and the worker is enqueued before the
  \<open>pending\<close> record is written, not after.
\<close>

theorem dispatch_order_counterexample:
  "fst (upload_file ''a.bin'' Garbled quiet_world) =
     Inr \<lparr>status_code = 202, content = JObj [(''file_id'', JStr ''job-1'')]\<rparr>
   \<and> emitted quiet_world (snd (upload_file ''a.bin'' Garbled quiet_world)) =
       [Generated ''job-1'', Staged ''/tmp/job-1-a.bin'', Enqueued ''job-1'' ''/tmp/job-1-a.bin'',
        StatusWrite ''job-1'' (JObj [(''status'', JStr ''pending'')]) True]
   \<and> emitted quiet_world (snd (upload_file ''a.bin'' Garbled quiet_world)) \<noteq>
       [Generated ''job-1'', Staged ''/tmp/job-1-a.bin'',
        StatusWrite ''job-1'' (JObj [(''status'', JStr ''pending'')]) True,
        Enqueued ''job-1'' ''/tmp/job-1-a.bin'']"
  by (simp add: run_defs sample_defs)

text \<open>
  Claim C4, amended. For every successful upload request, the dispatcher performs its
  steps in this order before responding: it generates the job id; it stages the bytes at
  the temporary path, a function of the job id and the filename hint; it enqueues the
  worker for this job id and path; then it writes the record with status \<open>pending\<close>;
  and it returns the job id with status 202.
\<close>

theorem dispatch_order:
  assumes "fst (upload_file filename src w) = Inr resp"
  shows "emitted w (snd (upload_file filename src w)) =
           [Generated (uuids w (issued w)),
            Staged (tmp_path_of (uuids w (issued w)) filename),
            Enqueued (uuids w (issued w)) (tmp_path_of (uuids w (issued w)) filename),
            StatusWrite (uuids w (issued w)) (JObj [(''status'', JStr ''pending'')]) True]
       \<and> resp = \<lparr>status_code = 202, content = JObj [(''file_id'', JStr (uuids w (issued w)))]\<rparr>
       \<and> tasks (snd (upload_file filename src w)) =
           tasks w @ [(uuids w (issued w), tmp_path_of (uuids w (issued w)) filename)]
       \<and> files (snd (upload_file filename src w)) (status_path (uuids w (issued w))) =
           Some (Holds (JObj [(''status'', JStr ''pending'')]))
       \<and> issued (snd (upload_file filename src w)) = Suc (issued w)
       \<and> uuids (snd (upload_file filename src w)) = uuids w"
proof -
  let ?k = "uuids w (issued w)"
  let ?tmp = "tmp_path_of ?k filename"
  let ?w1 = "log (Generated ?k) (w\<lparr>issued := Suc (issued w)\<rparr>)"
  let ?w2 = "snd (stage ?tmp src ?w1)"
  let ?w3 = "add_task ?k ?tmp ?w2"
  have unf: "upload_file filename src w =
      (case stage ?tmp src ?w1 of
         (Inl e, w2) \<Rightarrow> (Inl e, w2)
       | (Inr _, w2) \<Rightarrow>
           (case write_status ?k pending_record (add_task ?k ?tmp w2) of
              (Inl e, w4) \<Rightarrow> (Inl e, w4)
            | (Inr _, w4) \<Rightarrow>
                (Inr \<lparr>status_code = 202, content = JObj [(''file_id'', JStr ?k)]\<rparr>, w4)))"
    unfolding upload_file_def uuid4_def Let_def by simp
  have st: "fst (stage ?tmp src ?w1) = Inr ()"
    using assms unfolding unf by (auto simp: split_def split: sum.splits)
  have wr: "fst (write_status ?k pending_record ?w3) = Inr ()"
    using assms st unfolding unf by (auto simp: split_def split: sum.splits)
  have res: "upload_file filename src w =
      (Inr \<lparr>status_code = 202, content = JObj [(''file_id'', JStr ?k)]\<rparr>,
       snd (write_status ?k pending_record ?w3))"
    using st wr unfolding unf by (simp add: split_def)
  have "trace ?w2 = trace w @ [Generated ?k, Staged ?tmp]"
    using stage_returns(1) [OF st] by (simp add: log_def)
  moreover have "tasks ?w2 = tasks w"
    using stage_returns(2) [OF st] by (simp add: log_def)
  moreover have "issued ?w2 = Suc (issued w) \<and> uuids ?w2 = uuids w"
    using source_stage [of ?tmp src ?w1] by (simp add: log_def)
  ultimately show ?thesis
    using assms wr
    by (simp add: res emitted_def trace_write_status tasks_write_status files_write_status_ok
        source_write_status add_task_def log_def pending_record_def)
qed

theorem dispatch_order_witness:
  "fst (upload_file ''b.iso'' (Holds (JNum 5)) odd_store_world) =
     Inr \<lparr>status_code = 202, content = JObj [(''file_id'', JStr ''job-1'')]\<rparr>
   \<and> emitted odd_store_world (snd (upload_file ''b.iso'' (Holds (JNum 5)) odd_store_world)) =
       [Generated ''job-1'', Staged ''/tmp/job-1-b.iso'', Enqueued ''job-1'' ''/tmp/job-1-b.iso'',
        StatusWrite ''job-1'' (JObj [(''status'', JStr ''pending'')]) True]
   \<and> tasks (snd (upload_file ''b.iso'' (Holds (JNum 5)) odd_store_world)) =
       [(''job-1'', ''/tmp/job-1-b.iso'')]"
proof -
  have h: "fst (upload_file ''b.iso'' (Holds (JNum 5)) odd_store_world) =
     Inr \<lparr>status_code = 202, content = JObj [(''file_id'', JStr ''job-1'')]\<rparr>"
    by (simp add: run_defs sample_defs)
  have c: "emitted odd_store_world (snd (upload_file ''b.iso'' (Holds (JNum 5)) odd_store_world)) =
       [Generated (uuids odd_store_world (issued odd_store_world)),
        Staged (tmp_path_of (uuids odd_store_world (issued odd_store_world)) ''b.iso''),
        Enqueued (uuids odd_store_world (issued odd_store_world))
          (tmp_path_of (uuids odd_store_world (issued odd_store_world)) ''b.iso''),
        StatusWrite (uuids odd_store_world (issued odd_store_world))
          (JObj [(''status'', JStr ''pending'')]) True]"
    and t: "tasks (snd (upload_file ''b.iso'' (Holds (JNum 5)) odd_store_world)) =
       tasks odd_store_world @ [(uuids odd_store_world (issued odd_store_world),
          tmp_path_of (uuids odd_store_world (issued odd_store_world)) ''b.iso'')]"
    using dispatch_order [OF h] by blast+
  have u: "uuids odd_store_world (issued odd_store_world) = ''job-1''"
    by (simp add: sample_defs)
  have e: "tasks odd_store_world = []"
    by (simp add: sample_defs)
  have p: "tmp_path_of ''job-1'' ''b.iso'' = ''/tmp/job-1-b.iso''"
    by (simp add: tmp_path_of_def)
  show ?thesis
    unfolding c t u e p using h by simp
qed

end
